theory Spec2Isabelle
  imports Main
begin

section \<open>Go values used by \<^verbatim>\<open>internals/bblt.go\<close>\<close>

text \<open>
  A Go \<^verbatim>\<open>string\<close> is a byte sequence, here a \<^typ>\<open>string\<close>. A Go \<^verbatim>\<open>error\<close> value is
  identified with the text its \<^verbatim>\<open>Error()\<close> method returns; the \<^verbatim>\<open>nil\<close> error is \<open>None\<close>.
  A run-time panic is a value of its own: a function that can panic returns
  \<open>panic + 'a\<close>.
\<close>

type_synonym error = string

datatype panic =
    SliceBoundsOutOfRange
  | InterfaceConversionNil

subsection \<open>Package \<^verbatim>\<open>strings\<close> and slicing\<close>

text \<open>
  \<^verbatim>\<open>strings.LastIndex(s, substr)\<close>: the byte index of the last occurrence of \<open>substr\<close>
  in \<open>s\<close>, or \<open>-1\<close>. The candidates are tried from the right.
\<close>

fun lastIndexFrom :: "nat \<Rightarrow> string \<Rightarrow> string \<Rightarrow> int" where
  "lastIndexFrom 0 s substr = (if take (length substr) s = substr then 0 else - 1)"
| "lastIndexFrom (Suc i) s substr =
     (if take (length substr) (drop (Suc i) s) = substr then int (Suc i)
      else lastIndexFrom i s substr)"

definition LastIndex :: "string \<Rightarrow> string \<Rightarrow> int" where
  "LastIndex s substr = lastIndexFrom (length s) s substr"

text \<open>
  The slice expression \<^verbatim>\<open>s[lo:hi]\<close> on a string: it panics unless
  \<open>0 \<le> lo \<le> hi \<le> len(s)\<close>.
\<close>

definition slice :: "string \<Rightarrow> int \<Rightarrow> int \<Rightarrow> panic + string" where
  "slice s lo hi =
     (if 0 \<le> lo \<and> lo \<le> hi \<and> hi \<le> int (length s)
      then Inr (take (nat (hi - lo)) (drop (nat lo) s))
      else Inl SliceBoundsOutOfRange)"

text \<open>
  \<^verbatim>\<open>strings.TrimSpace\<close> removes the leading and trailing runes for which
  \<^verbatim>\<open>unicode.IsSpace\<close> holds. On the bytes of the string these runes are the following
  UTF-8 encodings: tab, line feed, vertical tab, form feed, carriage return, space,
  U+0085, U+00A0, U+1680, U+2000 to U+200A, U+2028, U+2029, U+202F, U+205F, U+3000.
\<close>

definition spaceRunes :: "string list" where
  "spaceRunes =
     [[CHR 0x09], [CHR 0x0A], [CHR 0x0B], [CHR 0x0C], [CHR 0x0D], [CHR 0x20],
      [CHR 0xC2, CHR 0x85], [CHR 0xC2, CHR 0xA0],
      [CHR 0xE1, CHR 0x9A, CHR 0x80],
      [CHR 0xE2, CHR 0x80, CHR 0x80], [CHR 0xE2, CHR 0x80, CHR 0x81],
      [CHR 0xE2, CHR 0x80, CHR 0x82], [CHR 0xE2, CHR 0x80, CHR 0x83],
      [CHR 0xE2, CHR 0x80, CHR 0x84], [CHR 0xE2, CHR 0x80, CHR 0x85],
      [CHR 0xE2, CHR 0x80, CHR 0x86], [CHR 0xE2, CHR 0x80, CHR 0x87],
      [CHR 0xE2, CHR 0x80, CHR 0x88], [CHR 0xE2, CHR 0x80, CHR 0x89],
      [CHR 0xE2, CHR 0x80, CHR 0x8A],
      [CHR 0xE2, CHR 0x80, CHR 0xA8], [CHR 0xE2, CHR 0x80, CHR 0xA9],
      [CHR 0xE2, CHR 0x80, CHR 0xAF],
      [CHR 0xE2, CHR 0x81, CHR 0x9F],
      [CHR 0xE3, CHR 0x80, CHR 0x80]]"

function trimPrefixes :: "string list \<Rightarrow> string \<Rightarrow> string" where
  "trimPrefixes ps s =
     (case find (\<lambda>p. p \<noteq> [] \<and> take (length p) s = p) ps of
        None \<Rightarrow> s
      | Some p \<Rightarrow> trimPrefixes ps (drop (length p) s))"
  by pat_completeness auto

termination trimPrefixes
proof (relation "measure (\<lambda>(ps, s). length s)")
  show "wf (measure (\<lambda>(ps, s). length s))" by simp
next
  fix ps :: "string list" and s p :: string
  assume "find (\<lambda>p. p \<noteq> [] \<and> take (length p) s = p) ps = Some p"
  then have ne: "p \<noteq> []" and pre: "take (length p) s = p"
    by (auto simp: find_Some_iff)
  from ne have "0 < length p" by simp
  moreover from pre ne have "s \<noteq> []" by auto
  ultimately show "((ps, drop (length p) s), (ps, s)) \<in> measure (\<lambda>(ps, s). length s)"
    by simp
qed

declare trimPrefixes.simps [simp del]

definition TrimLeftSpace :: "string \<Rightarrow> string" where
  "TrimLeftSpace s = trimPrefixes spaceRunes s"

definition TrimRightSpace :: "string \<Rightarrow> string" where
  "TrimRightSpace s = rev (trimPrefixes (map rev spaceRunes) (rev s))"

definition TrimSpace :: "string \<Rightarrow> string" where
  "TrimSpace s = TrimRightSpace (TrimLeftSpace s)"

section \<open>The collaborators: Bubble Tea, Bubbles, go-github\<close>

subsection \<open>Key messages\<close>

text \<open>
  A \<^verbatim>\<open>tea.KeyMsg\<close> carries a key type, the runes typed, and the \<^verbatim>\<open>Alt\<close> and \<^verbatim>\<open>Paste\<close>
  flags. Only the key types the program and its widgets tell apart are listed.
  \<^verbatim>\<open>msg.String()\<close> prefixes \<^verbatim>\<open>alt+\<close>, prints the runes of a \<^verbatim>\<open>KeyRunes\<close> key (in brackets
  when pasted) and the fixed name of every other key.
\<close>

datatype KeyType =
    KeyRunes | KeyCtrlC | KeyEnter | KeyEsc | KeyTab | KeyBackspace | KeyUp | KeyDown

record Key =
  Type :: KeyType
  Runes :: string
  Alt :: bool
  Paste :: bool

fun keyNames :: "KeyType \<Rightarrow> string" where
  "keyNames KeyRunes = ''runes''"
| "keyNames KeyCtrlC = ''ctrl+c''"
| "keyNames KeyEnter = ''enter''"
| "keyNames KeyEsc = ''esc''"
| "keyNames KeyTab = ''tab''"
| "keyNames KeyBackspace = ''backspace''"
| "keyNames KeyUp = ''up''"
| "keyNames KeyDown = ''down''"

definition Key_String :: "Key \<Rightarrow> string" where
  "Key_String k =
     (if Alt k then ''alt+'' else []) @
     (if Type k = KeyRunes
      then (if Paste k then ''['' else []) @ Runes k @ (if Paste k then '']'' else [])
      else keyNames (Type k))"

subsection \<open>Messages and commands\<close>

text \<open>
  \<^verbatim>\<open>cloneFinishedMsg\<close> of the source; its fields \<^verbatim>\<open>err\<close> and \<^verbatim>\<open>dir\<close> are \<open>cf_err\<close> and
  \<open>cf_dir\<close> here, since \<^verbatim>\<open>repoModel\<close> has a field \<^verbatim>\<open>err\<close> too.
\<close>

record cloneFinishedMsg =
  cf_err :: "error option"
  cf_dir :: string

datatype msg =
    KeyMsg Key
  | WindowSizeMsg int int
  | CloneFinishedMsg cloneFinishedMsg
  | TickMsg
  | OtherMsg nat

text \<open>
  A \<^verbatim>\<open>tea.Cmd\<close> is a closure; the model keeps what it was built from. \<open>CloneRepo u\<close> is
  the closure \<^verbatim>\<open>cloneRepo(u)\<close>, which only this program can build. A widget of the
  Bubbles library returns \<^verbatim>\<open>tea.Quit\<close> or a command of its own (\<open>widgetCmd\<close>); the
  \<^verbatim>\<open>nil\<close> command is \<open>None\<close>.
\<close>

datatype widgetCmd = WidgetQuit | WidgetOther nat

datatype cmd =
    Quit
  | Blink
  | SpinnerTick
  | CloneRepo string
  | Batch "cmd list"
  | WidgetCmd nat

fun liftCmd :: "widgetCmd \<Rightarrow> cmd" where
  "liftCmd WidgetQuit = Quit"
| "liftCmd (WidgetOther n) = WidgetCmd n"

text \<open>Whether running a command starts a \<^verbatim>\<open>git clone\<close>.\<close>

fun dispatchesClone :: "cmd \<Rightarrow> bool" where
  "dispatchesClone (CloneRepo u) = True"
| "dispatchesClone (Batch cs) = list_ex dispatchesClone cs"
| "dispatchesClone c = False"

subsection \<open>Widgets\<close>

text \<open>\<^verbatim>\<open>item\<close> of the source: a list entry with its title and its clone URL.\<close>

record item =
  name :: string
  url :: string

text \<open>
  \<^verbatim>\<open>list.Model\<close> of Bubbles, as far as the program reads and writes it: the items it
  currently shows, the index of the cursor among them, the title and the size.
  \<^verbatim>\<open>SelectedItem()\<close> returns \<^verbatim>\<open>nil\<close> when no item is shown or the index is out of range.
  \<^verbatim>\<open>SetSize\<close> is kept to the size it stores; how the widget lays its pages out again is
  not modelled, and no statement below reads the index after a resize.
\<close>

record listModel =
  visibleItems :: "item list"
  index :: nat
  Title :: string
  width :: int
  height :: int

definition list_New :: "item list \<Rightarrow> int \<Rightarrow> int \<Rightarrow> listModel" where
  "list_New its w h =
     \<lparr>visibleItems = its, index = 0, Title = ''List'', width = w, height = h\<rparr>"

definition SelectedItem :: "listModel \<Rightarrow> item option" where
  "SelectedItem l =
     (if length (visibleItems l) = 0 \<or> length (visibleItems l) \<le> index l then None
      else Some (visibleItems l ! index l))"

definition SetSize :: "int \<Rightarrow> int \<Rightarrow> listModel \<Rightarrow> listModel" where
  "SetSize w h l = l\<lparr>width := w, height := h\<rparr>"

record spinnerModel =
  frame :: nat

definition spinner_New :: spinnerModel where
  "spinner_New = \<lparr>frame = 0\<rparr>"

record textinputModel =
  Value :: string
  CharLimit :: nat
  focus :: bool

definition textinput_New :: textinputModel where
  "textinput_New = \<lparr>Value = [], CharLimit = 0, focus = False\<rparr>"

text \<open>
  What the widgets do with a message is theirs: the \<^verbatim>\<open>Update\<close> methods of the list, the
  spinner and the text input, and the sanitizer the text input applies to a value set
  from outside, are parameters of the model. \<^verbatim>\<open>SetValue\<close> cuts the value at \<^verbatim>\<open>CharLimit\<close>
  when that is positive (in runes in the library, in bytes here); \<^verbatim>\<open>prepUsernameModel\<close>
  calls it while the limit is still \<open>0\<close>, where nothing is cut.
\<close>

record widgets =
  list_Update :: "msg \<Rightarrow> listModel \<Rightarrow> listModel \<times> widgetCmd option"
  spinner_Update :: "msg \<Rightarrow> spinnerModel \<Rightarrow> spinnerModel \<times> widgetCmd option"
  textinput_Update :: "msg \<Rightarrow> textinputModel \<Rightarrow> textinputModel \<times> widgetCmd option"
  Sanitize :: "string \<Rightarrow> string"

definition SetValue :: "widgets \<Rightarrow> string \<Rightarrow> textinputModel \<Rightarrow> textinputModel" where
  "SetValue W s ti =
     (let runes = Sanitize W s in
      ti\<lparr>Value := (if CharLimit ti > 0 \<and> length runes > CharLimit ti
                   then take (CharLimit ti) runes else runes)\<rparr>)"

definition Focus :: "textinputModel \<Rightarrow> textinputModel" where
  "Focus ti = ti\<lparr>focus := True\<rparr>"

subsection \<open>The GitHub client\<close>

text \<open>
  A \<^verbatim>\<open>github.Repository\<close> has pointer fields; \<^verbatim>\<open>GetName\<close> and \<^verbatim>\<open>GetCloneURL\<close> return the
  empty string for a \<^verbatim>\<open>nil\<close> field. A client answers
  \<^verbatim>\<open>Repositories.List(ctx, username, opt)\<close>, for the page \<^verbatim>\<open>opt.Page\<close>, with an error or
  with the repositories of the page and the number of the next page (\<open>0\<close>: none).
  The \<open>world\<close> records every request sent.
\<close>

record Repository =
  Name :: "string option"
  CloneURL :: "string option"

definition GetName :: "Repository \<Rightarrow> string" where
  "GetName r = (case Name r of None \<Rightarrow> [] | Some s \<Rightarrow> s)"

definition GetCloneURL :: "Repository \<Rightarrow> string" where
  "GetCloneURL r = (case CloneURL r of None \<Rightarrow> [] | Some s \<Rightarrow> s)"

type_synonym client = "string \<Rightarrow> int \<Rightarrow> error + (Repository list \<times> int)"

record world =
  requests :: "(string \<times> int) list"

record env =
  GITHUB_TOKEN :: string
  NewClient :: "string option \<Rightarrow> client"
  bubbles :: widgets

section \<open>The program\<close>

subsection \<open>The two models\<close>

text \<open>
  \<^verbatim>\<open>repoModel\<close> and \<^verbatim>\<open>usernameModel\<close> of the source. The fields \<^verbatim>\<open>username\<close> and \<^verbatim>\<open>err\<close>
  of \<^verbatim>\<open>usernameModel\<close> are \<open>um_username\<close> and \<open>um_err\<close> here. A \<^verbatim>\<open>tea.Model\<close> is one of
  the two.
\<close>

record repoModel =
  username :: string
  repos :: "Repository list"
  list :: listModel
  err :: "error option"
  spinner :: spinnerModel
  cloning :: bool
  cloneMsg :: string
  cloneError :: bool

record usernameModel =
  rootModel :: repoModel
  um_username :: string
  textInput :: textinputModel
  um_err :: "error option"

datatype model = RepoModel repoModel | UsernameModel usernameModel

text \<open>The zero value \<^verbatim>\<open>repoModel{}\<close>.\<close>

definition repoModel_zero :: repoModel where
  "repoModel_zero =
     \<lparr>username = [], repos = [],
      list = \<lparr>visibleItems = [], index = 0, Title = [], width = 0, height = 0\<rparr>,
      err = None, spinner = \<lparr>frame = 0\<rparr>, cloning = False, cloneMsg = [],
      cloneError = False\<rparr>"

definition prepUsernameModel :: "widgets \<Rightarrow> string \<Rightarrow> repoModel \<Rightarrow> usernameModel" where
  "prepUsernameModel W uname root =
     (let ti = textinput_New;
          ti = SetValue W uname ti;
          ti = Focus ti;
          ti = ti\<lparr>CharLimit := 64\<rparr>
      in \<lparr>rootModel = root, um_username = uname, textInput = ti, um_err = None\<rparr>)"

subsection \<open>\<^verbatim>\<open>cloneRepo\<close>\<close>

text \<open>
  Running the command \<^verbatim>\<open>cloneRepo(url)\<close>: \<open>(output, e)\<close> is what
  \<^verbatim>\<open>cmd.CombinedOutput()\<close> returned for \<^verbatim>\<open>git clone url\<close>. The directory name is the
  slice \<^verbatim>\<open>url[strings.LastIndex(url, "/")+1 : len(url)-4]\<close>.
\<close>

definition cloneRepo :: "string \<Rightarrow> string \<times> error option \<Rightarrow> panic + cloneFinishedMsg" where
  "cloneRepo u r =
     (case r of
        (output, Some e) \<Rightarrow> Inr \<lparr>cf_err = Some (e @ '': '' @ output), cf_dir = []\<rparr>
      | (output, None) \<Rightarrow>
          (case slice u (LastIndex u ''/'' + 1) (int (length u) - 4) of
             Inl p \<Rightarrow> Inl p
           | Inr d \<Rightarrow> Inr \<lparr>cf_err = None, cf_dir = d\<rparr>))"

subsection \<open>\<^verbatim>\<open>fetchRepos\<close>\<close>

text \<open>
  The loop of \<^verbatim>\<open>fetchRepos\<close>: one request per round, for the page \<^verbatim>\<open>opt.Page\<close>; it
  ends at the first error or at the first answer whose \<^verbatim>\<open>NextPage\<close> is \<open>0\<close>, and runs
  forever (\<open>None\<close>) on a client that never gives either.
\<close>

partial_function (option) listLoop ::
  "client \<Rightarrow> string \<Rightarrow> int \<Rightarrow> Repository list \<Rightarrow> world \<Rightarrow>
     ((error + Repository list) \<times> world) option" where
  "listLoop cl uname page allRepos w =
     (case cl uname page of
        Inl e \<Rightarrow>
          Some (Inl (''failed to list repos: '' @ e),
                w\<lparr>requests := requests w @ [(uname, page)]\<rparr>)
      | Inr (rs, nextPage) \<Rightarrow>
          if nextPage = 0
          then Some (Inr (allRepos @ rs), w\<lparr>requests := requests w @ [(uname, page)]\<rparr>)
          else listLoop cl uname nextPage (allRepos @ rs)
                 (w\<lparr>requests := requests w @ [(uname, page)]\<rparr>))"

definition fetchRepos ::
  "env \<Rightarrow> string \<Rightarrow> world \<Rightarrow> ((error + Repository list) \<times> world) option" where
  "fetchRepos E uname w =
     (let token = GITHUB_TOKEN E;
          cl = (if token \<noteq> [] then NewClient E (Some token) else NewClient E None)
      in listLoop cl uname 0 [] w)"

subsection \<open>\<^verbatim>\<open>initialModel\<close>\<close>

definition toItem :: "Repository \<Rightarrow> item" where
  "toItem repo = \<lparr>name = GetName repo, url = GetCloneURL repo\<rparr>"

definition emptyModel :: "string \<Rightarrow> error option \<Rightarrow> repoModel" where
  "emptyModel uname e =
     \<lparr>username = uname, repos = [], list = list_New [] 0 0, err = e,
      spinner = spinner_New, cloning = False, cloneMsg = [], cloneError = False\<rparr>"

definition initialModel :: "env \<Rightarrow> string \<Rightarrow> world \<Rightarrow> (repoModel \<times> world) option" where
  "initialModel E uname w =
     (case fetchRepos E uname w of
        None \<Rightarrow> None
      | Some (Inl e, w') \<Rightarrow> Some (emptyModel uname (Some e), w')
      | Some (Inr rs, w') \<Rightarrow>
          if length rs \<le> 0 then Some (emptyModel uname None, w')
          else
            (let l = list_New (map toItem rs) 0 0;
                 l = l\<lparr>Title := uname @ [CHR 0x27] @ ''s GitHub Repositories''\<rparr>;
                 l = SetSize 80 24 l
             in Some (\<lparr>username = uname, repos = rs, list = l, err = None,
                       spinner = spinner_New, cloning = False, cloneMsg = [],
                       cloneError = False\<rparr>, w')))"

subsection \<open>\<^verbatim>\<open>usernameModel.Update\<close>\<close>

definition usernameModel_Update ::
  "env \<Rightarrow> usernameModel \<Rightarrow> msg \<Rightarrow> world \<Rightarrow> ((model \<times> cmd option) \<times> world) option" where
  "usernameModel_Update E m ms w =
     (let forward =
            (let (ti, c) = textinput_Update (bubbles E) ms (textInput m)
             in Some ((UsernameModel (m\<lparr>textInput := ti\<rparr>), map_option liftCmd c), w))
      in case ms of
           KeyMsg k \<Rightarrow>
             (if Type k = KeyCtrlC then Some ((UsernameModel m, Some Quit), w)
              else if Type k = KeyEnter then
                (let uname = TrimSpace (Value (textInput m)) in
                 if uname = [] then Some ((UsernameModel m, None), w)
                 else (case initialModel E uname w of
                         None \<Rightarrow> None
                       | Some (r, w') \<Rightarrow> Some ((RepoModel r, None), w')))
              else if Type k = KeyEsc then
                (if um_username m = [] then Some ((UsernameModel m, Some Quit), w)
                 else Some ((RepoModel (rootModel m), None), w))
              else forward)
         | _ \<Rightarrow> forward)"

subsection \<open>\<^verbatim>\<open>repoModel.Update\<close>\<close>

text \<open>
  \<^verbatim>\<open>normalStyle\<close> has the margins \<open>(1, 2)\<close>, so its frame is 4 columns wide and 2 rows
  high. A message no branch returns on goes to the list widget, whose command is
  returned. The type assertion \<^verbatim>\<open>m.list.SelectedItem().(item)\<close> panics on \<^verbatim>\<open>nil\<close>.
\<close>

definition forwardToList :: "widgets \<Rightarrow> repoModel \<Rightarrow> msg \<Rightarrow> panic + (model \<times> cmd option)" where
  "forwardToList W m ms =
     (let (l, c) = list_Update W ms (list m)
      in Inr (RepoModel (m\<lparr>list := l\<rparr>), map_option liftCmd c))"

definition repoModel_Update :: "widgets \<Rightarrow> repoModel \<Rightarrow> msg \<Rightarrow> panic + (model \<times> cmd option)" where
  "repoModel_Update W m ms =
     (case ms of
        KeyMsg k \<Rightarrow>
          (if Key_String k = ''ctrl+c'' \<and> \<not> cloning m then Inr (RepoModel m, Some Quit)
           else if Key_String k = ''enter'' \<and> \<not> cloning m then
             (case SelectedItem (list m) of
                None \<Rightarrow> Inl InterfaceConversionNil
              | Some selectedItem \<Rightarrow>
                  Inr (RepoModel (m\<lparr>cloning := True,
                                     cloneMsg := ''Cloning '' @ name selectedItem @ ''...''\<rparr>),
                       Some (Batch [SpinnerTick, CloneRepo (url selectedItem)])))
           else if Key_String k = ''c'' \<and> \<not> cloning m then
             Inr (UsernameModel (prepUsernameModel W (username m) m), None)
           else forwardToList W m ms)
      | WindowSizeMsg wd ht \<Rightarrow>
          forwardToList W (m\<lparr>list := SetSize (wd - 4) (ht - 2) (list m)\<rparr>) ms
      | CloneFinishedMsg c \<Rightarrow>
          (case cf_err c of
             Some e \<Rightarrow>
               Inr (RepoModel (m\<lparr>cloning := False, cloneError := True,
                                  cloneMsg := ''Error cloning: '' @ e\<rparr>), None)
           | None \<Rightarrow>
               Inr (RepoModel (m\<lparr>cloning := False, cloneError := False,
                                  cloneMsg := ''Successfully cloned to '' @ cf_dir c @ ''/''\<rparr>),
                    None))
      | TickMsg \<Rightarrow>
          (let (s, c) = spinner_Update W ms (spinner m)
           in Inr (RepoModel (m\<lparr>spinner := s\<rparr>), map_option liftCmd c))
      | OtherMsg n \<Rightarrow> forwardToList W m ms)"

subsection \<open>\<^verbatim>\<open>BbltRun\<close> and the event loop\<close>

text \<open>
  The model \<^verbatim>\<open>BbltRun\<close> hands to the event loop: \<open>(out, e)\<close> is what
  \<^verbatim>\<open>cmd.CombinedOutput()\<close> returned for \<^verbatim>\<open>git config user.name\<close>.
\<close>

definition BbltRun :: "env \<Rightarrow> string \<times> error option \<Rightarrow> world \<Rightarrow> (model \<times> world) option" where
  "BbltRun E r w =
     (case r of (out, e) \<Rightarrow>
        (let un = TrimSpace out in
         if e \<noteq> None \<and> un = []
         then Some (UsernameModel (prepUsernameModel (bubbles E) [] repoModel_zero), w)
         else (case initialModel E un w of
                 None \<Rightarrow> None
               | Some (m, w') \<Rightarrow> Some (RepoModel m, w'))))"

text \<open>
  One round of the event loop sends the message to the \<^verbatim>\<open>Update\<close> of the active model.
  \<open>run\<close> feeds a sequence of messages, one at a time, and collects the commands returned.
  \<open>None\<close>: a fetch never returned; \<open>Inl\<close>: the program panicked.
\<close>

definition Update ::
  "env \<Rightarrow> model \<Rightarrow> msg \<Rightarrow> world \<Rightarrow> (panic + ((model \<times> cmd option) \<times> world)) option" where
  "Update E md ms w =
     (case md of
        RepoModel m \<Rightarrow>
          (case repoModel_Update (bubbles E) m ms of
             Inl p \<Rightarrow> Some (Inl p)
           | Inr r \<Rightarrow> Some (Inr (r, w)))
      | UsernameModel m \<Rightarrow> map_option Inr (usernameModel_Update E m ms w))"

fun run ::
  "env \<Rightarrow> model \<Rightarrow> msg list \<Rightarrow> world \<Rightarrow> (panic + ((model \<times> cmd list) \<times> world)) option" where
  "run E md [] w = Some (Inr ((md, []), w))"
| "run E md (ms # mss) w =
     (case Update E md ms w of
        None \<Rightarrow> None
      | Some (Inl p) \<Rightarrow> Some (Inl p)
      | Some (Inr ((md', c), w')) \<Rightarrow>
          (case run E md' mss w' of
             None \<Rightarrow> None
           | Some (Inl p) \<Rightarrow> Some (Inl p)
           | Some (Inr ((md'', cs), w'')) \<Rightarrow>
               Some (Inr ((md'', (case c of None \<Rightarrow> [] | Some x \<Rightarrow> [x]) @ cs), w''))))"

subsection \<open>What the screen shows\<close>

text \<open>
  \<^verbatim>\<open>repoModel.View\<close> tells three phases apart, in this order: a clone is running
  (\<^verbatim>\<open>m.cloning\<close>), a clone has ended (\<^verbatim>\<open>m.cloneMsg\<close> is not empty; an error when
  \<^verbatim>\<open>m.cloneError\<close>), or neither. \<open>phase\<close> reads them off the model, each with the message
  shown.
\<close>

datatype outcome = Success string | Failure string

datatype phase = Idle | Cloning string | CloneResult outcome

definition phase :: "repoModel \<Rightarrow> phase" where
  "phase m =
     (if cloning m then Cloning (cloneMsg m)
      else if cloneMsg m \<noteq> [] then
        CloneResult (if cloneError m then Failure (cloneMsg m) else Success (cloneMsg m))
      else Idle)"

section \<open>Inputs for the examples\<close>

text \<open>
  A GitHub client that serves a fixed sequence of pages: the request for page \<open>0\<close> (no
  page set) or \<open>1\<close> gets the first page, the request for page \<open>p\<close> the \<open>p\<close>-th; each
  answer names the next page, the last one names \<open>0\<close>. A page is an error or its
  repositories.
\<close>

definition pagedClient :: "(error + Repository list) list \<Rightarrow> client" where
  "pagedClient pages uname page =
     (let i = (if page \<le> 1 then 0 else nat page - 1) in
      if i < length pages then
        (case pages ! i of
           Inl e \<Rightarrow> Inl e
         | Inr rs \<Rightarrow> Inr (rs, if i + 1 < length pages then int i + 2 else 0))
      else Inr ([], 0))"

text \<open>
  What a fetch over a sequence of pages is to return: the repositories of all pages in
  order, or the wrapped error of the first page that fails.
\<close>

fun gather :: "(error + Repository list) list \<Rightarrow> Repository list \<Rightarrow> error + Repository list" where
  "gather [] acc = Inr acc"
| "gather (Inl e # ps) acc = Inl (''failed to list repos: '' @ e)"
| "gather (Inr rs # ps) acc = gather ps (acc @ rs)"

text \<open>Widgets that ignore every message, and a list widget that quits on its
  \<^verbatim>\<open>ForceQuit\<close> key \<^verbatim>\<open>ctrl+c\<close>, as the key map of the Bubbles list does by default.\<close>

definition stillWidgets :: widgets where
  "stillWidgets =
     \<lparr>list_Update = (\<lambda>ms l. (l, None)),
      spinner_Update = (\<lambda>ms s. (s, None)),
      textinput_Update = (\<lambda>ms t. (t, None)),
      Sanitize = (\<lambda>s. s)\<rparr>"

definition forceQuitWidgets :: widgets where
  "forceQuitWidgets =
     stillWidgets\<lparr>list_Update :=
       (\<lambda>ms l. case ms of
                  KeyMsg k \<Rightarrow> if Key_String k = ''ctrl+c'' then (l, Some WidgetQuit) else (l, None)
                | _ \<Rightarrow> (l, None))\<rparr>"

definition pagedEnv :: "(error + Repository list) list \<Rightarrow> env" where
  "pagedEnv pages =
     \<lparr>GITHUB_TOKEN = [], NewClient = (\<lambda>t. pagedClient pages), bubbles = stillWidgets\<rparr>"

definition plainKey :: "KeyType \<Rightarrow> Key" where
  "plainKey t = \<lparr>Type = t, Runes = [], Alt = False, Paste = False\<rparr>"

definition runeKey :: "string \<Rightarrow> Key" where
  "runeKey s = \<lparr>Type = KeyRunes, Runes = s, Alt = False, Paste = False\<rparr>"

definition repo :: "string \<Rightarrow> string \<Rightarrow> Repository" where
  "repo n u = \<lparr>Name = Some n, CloneURL = Some u\<rparr>"

definition world0 :: world where
  "world0 = \<lparr>requests = []\<rparr>"

text \<open>A repository list as \<^verbatim>\<open>initialModel\<close> builds it for a user with two repositories.\<close>

definition aliceRepos :: "Repository list" where
  "aliceRepos =
     [repo ''dotfiles'' ''https://github.com/alice/dotfiles.git'',
      repo ''notes'' ''https://github.com/alice/notes.git'']"

definition aliceModel :: repoModel where
  "aliceModel =
     \<lparr>username = ''alice'', repos = aliceRepos,
      list = \<lparr>visibleItems = map toItem aliceRepos, index = 0,
               Title = ''alice'' @ [CHR 0x27] @ ''s GitHub Repositories'',
               width = 80, height = 24\<rparr>,
      err = None, spinner = spinner_New, cloning = False, cloneMsg = [],
      cloneError = False\<rparr>"

text \<open>The messages that \<^verbatim>\<open>usernameModel.Update\<close> hands to the text input: every message
  but the three keys it handles itself.\<close>

fun editMsg :: "msg \<Rightarrow> bool" where
  "editMsg (KeyMsg k) = (Type k \<noteq> KeyCtrlC \<and> Type k \<noteq> KeyEnter \<and> Type k \<noteq> KeyEsc)"
| "editMsg ms = True"

text \<open>A confirm-key event of the repository list: a key message that prints as
  \<^verbatim>\<open>enter\<close>.\<close>

fun confirmKey :: "msg \<Rightarrow> bool" where
  "confirmKey (KeyMsg k) = (Key_String k = ''enter'')"
| "confirmKey ms = False"

section \<open>Lemmas\<close>

declare listLoop.simps [code]

subsection \<open>\<^verbatim>\<open>strings.LastIndex\<close> and the directory name\<close>

lemma slash_at:
  "(take (Suc 0) (drop i s) = ''/'') = (i < length s \<and> s ! i = CHR ''/'')"
proof (cases "i < length s")
  case True
  then have "drop i s = s ! i # drop (Suc i) s"
    by (simp add: Cons_nth_drop_Suc)
  with True show ?thesis by simp
next
  case False
  then show ?thesis by simp
qed


lemma lastIndexFrom_none:
  assumes "CHR ''/'' \<notin> set s"
  shows "lastIndexFrom n s ''/'' = - 1"
proof (induction n)
  case 0
  from assms have "\<not> (0 < length s \<and> s ! 0 = CHR ''/'')"
    by (metis nth_mem)
  then show ?case using slash_at [of 0 s] by simp
next
  case (Suc n)
  from assms have "\<not> (Suc n < length s \<and> s ! Suc n = CHR ''/'')"
    by (metis nth_mem)
  then show ?case using Suc.IH by (simp add: slash_at)
qed



lemma cloneRepo_git_suffix_no_slash:
  assumes "CHR ''/'' \<notin> set seg"
  shows "cloneRepo (seg @ ''.git'') (out, None) = Inr \<lparr>cf_err = None, cf_dir = seg\<rparr>"
proof -
  from assms have "CHR ''/'' \<notin> set (seg @ ''.git'')" by simp
  then have "LastIndex (seg @ ''.git'') ''/'' = - 1"
    unfolding LastIndex_def by (rule lastIndexFrom_none)
  then show ?thesis
    by (simp add: cloneRepo_def slice_def)
qed

subsection \<open>The fetch loop over a sequence of pages\<close>

lemma pagedClient_later:
  assumes "1 \<le> i" and "i < length pages"
  shows "pagedClient pages u (int i + 1) =
           (case pages ! i of
              Inl e \<Rightarrow> Inl e
            | Inr rs \<Rightarrow> Inr (rs, if i + 1 < length pages then int i + 2 else 0))"
  using assms by (simp add: pagedClient_def Let_def nat_add_distrib)

lemma pagedClient_first:
  "pagedClient pages u 0 =
     (case pages of
        [] \<Rightarrow> Inr ([], 0)
      | Inl e # ps \<Rightarrow> Inl e
      | Inr rs # ps \<Rightarrow> Inr (rs, if ps \<noteq> [] then 2 else 0))"
  by (auto simp: pagedClient_def split: list.splits sum.splits)

lemma listLoop_later:
  assumes "1 \<le> i" and "i < length pages"
  shows "map_option fst (listLoop (pagedClient pages) u (int i + 1) acc w) =
           Some (gather (drop i pages) acc)"
  using assms
proof (induction "length pages - i" arbitrary: i acc w)
  case 0
  then show ?case by simp
next
  case (Suc n)
  have d: "drop i pages = pages ! i # drop (Suc i) pages"
    using Suc.prems by (simp add: Cons_nth_drop_Suc)
  show ?case
  proof (cases "pages ! i")
    case (Inl e)
    then show ?thesis
      using Suc.prems d
      by (subst listLoop.simps) (simp add: pagedClient_later)
  next
    case (Inr rs)
    show ?thesis
    proof (cases "i + 1 < length pages")
      case True
      have "n = length pages - Suc i" using Suc.hyps(2) by simp
      from Suc.hyps(1) [OF this, of "acc @ rs"] True
      have ih: "\<And>w'. map_option fst
                  (listLoop (pagedClient pages) u (int (Suc i) + 1) (acc @ rs) w') =
                  Some (gather (drop (Suc i) pages) (acc @ rs))"
        by simp
      have two: "int i + 2 = int (Suc i) + 1" by simp
      show ?thesis
        using Suc.prems d Inr True
        by (subst listLoop.simps) (simp add: pagedClient_later two ih del: of_nat_Suc)
    next
      case False
      then have "drop (Suc i) pages = []" using Suc.prems by simp
      then show ?thesis
        using Suc.prems d Inr False
        by (subst listLoop.simps) (simp add: pagedClient_later)
    qed
  qed
qed

lemma listLoop_paged:
  "map_option fst (listLoop (pagedClient pages) u 0 acc w) = Some (gather pages acc)"
proof (cases pages)
  case Nil
  then show ?thesis
    by (subst listLoop.simps) (simp add: pagedClient_first)
next
  case (Cons p ps)
  show ?thesis
  proof (cases p)
    case (Inl e)
    then show ?thesis using Cons
      by (subst listLoop.simps) (simp add: pagedClient_first)
  next
    case (Inr rs)
    show ?thesis
    proof (cases "ps = []")
      case True
      then show ?thesis using Cons Inr
        by (subst listLoop.simps) (simp add: pagedClient_first)
    next
      case False
      then have "1 < length pages" using Cons by (cases ps) auto
      from listLoop_later [of 1 pages u "acc @ rs"] this
      have "\<And>w'. map_option fst (listLoop (pagedClient pages) u 2 (acc @ rs) w') =
              Some (gather (drop 1 pages) (acc @ rs))"
        by simp
      then show ?thesis using Cons Inr False
        by (subst listLoop.simps) (simp add: pagedClient_first)
    qed
  qed
qed

lemma gather_all: "gather (map Inr rss) acc = Inr (acc @ concat rss)"
  by (induction rss arbitrary: acc) auto

lemma gather_fail:
  "gather (map Inr rss @ Inl e # rest) acc = Inl (''failed to list repos: '' @ e)"
  by (induction rss arbitrary: acc) auto

lemma fetchRepos_paged:
  "map_option fst (fetchRepos (E\<lparr>NewClient := (\<lambda>t. pagedClient pages)\<rparr>) u w) =
     Some (gather pages [])"
  using listLoop_paged [of pages u "[]" w]
  by (cases "GITHUB_TOKEN E = []") (simp_all add: fetchRepos_def Let_def)

lemma initialModel_items:
  assumes "map_option fst (fetchRepos E u w) = Some (Inr rs)"
  shows "map_option (\<lambda>r. visibleItems (list (fst r))) (initialModel E u w) =
           Some (map toItem rs)"
proof -
  from assms obtain w' where "fetchRepos E u w = Some (Inr rs, w')" by auto
  then show ?thesis
    by (simp add: initialModel_def emptyModel_def list_New_def SetSize_def Let_def)
qed

lemma initialModel_error:
  assumes "map_option fst (fetchRepos E u w) = Some (Inl e)"
  shows "map_option fst (initialModel E u w) = Some (emptyModel u (Some e))"
proof -
  from assms obtain w' where "fetchRepos E u w = Some (Inl e, w')" by auto
  then show ?thesis by (simp add: initialModel_def)
qed

subsection \<open>Steps of the two controllers\<close>

lemma TrimSpace_Nil: "TrimSpace [] = []"
  by code_simp

lemma edit_step:
  assumes "editMsg ms"
  shows "\<exists>ti c. usernameModel_Update E m ms w =
            Some ((UsernameModel (m\<lparr>textInput := ti\<rparr>), c), w)"
  using assms
  by (cases ms) (auto simp: usernameModel_Update_def Let_def split: prod.splits)

lemma esc_step:
  assumes "Type k = KeyEsc"
  shows "usernameModel_Update E m (KeyMsg k) w =
           Some ((if um_username m = [] then (UsernameModel m, Some Quit)
                  else (RepoModel (rootModel m), None)), w)"
  using assms by (simp add: usernameModel_Update_def)

text \<open>
  Messages the text input takes do not change what the cancel key finds: after any
  number of them the model differs from the first one in its text input only.
\<close>

lemma run_edits_then:
  assumes "list_all editMsg edits"
  shows "\<exists>ti cs. run E (UsernameModel m) (edits @ [ms]) w =
           (case usernameModel_Update E (m\<lparr>textInput := ti\<rparr>) ms w of
              None \<Rightarrow> None
            | Some ((md, c), w') \<Rightarrow>
                Some (Inr ((md, cs @ (case c of None \<Rightarrow> [] | Some x \<Rightarrow> [x])), w')))"
  using assms
proof (induction edits arbitrary: m)
  case Nil
  have "m\<lparr>textInput := textInput m\<rparr> = m" by simp
  then show ?case
    apply (intro exI [of _ "textInput m"] exI [of _ "[]"])
    apply (auto simp: Update_def split: option.splits prod.splits)
    done
next
  case (Cons e es)
  then have e: "editMsg e" and es: "list_all editMsg es" by simp_all
  from edit_step [OF e, of E m w] obtain ti c where
    st: "usernameModel_Update E m e w = Some ((UsernameModel (m\<lparr>textInput := ti\<rparr>), c), w)"
    by blast
  from Cons.IH [OF es, of "m\<lparr>textInput := ti\<rparr>"] obtain ti' cs where
    ih: "run E (UsernameModel (m\<lparr>textInput := ti\<rparr>)) (es @ [ms]) w =
           (case usernameModel_Update E (m\<lparr>textInput := ti'\<rparr>) ms w of
              None \<Rightarrow> None
            | Some ((md, c), w') \<Rightarrow>
                Some (Inr ((md, cs @ (case c of None \<Rightarrow> [] | Some x \<Rightarrow> [x])), w')))"
    by auto
  show ?case
    apply (intro exI [of _ ti'] exI [of _ "(case c of None \<Rightarrow> [] | Some x \<Rightarrow> [x]) @ cs"])
    apply (simp add: Update_def st ih split: option.splits prod.splits)
    done
qed

lemma change_step:
  assumes "Key_String kc = ''c''" and "\<not> cloning root"
  shows "repoModel_Update W root (KeyMsg kc) =
           Inr (UsernameModel (prepUsernameModel W (username root) root), None)"
  using assms by (simp add: repoModel_Update_def)

lemma prep_fields:
  "rootModel (prepUsernameModel W u root) = root"
  "um_username (prepUsernameModel W u root) = u"
  by (simp_all add: prepUsernameModel_def Let_def)

lemma change_edit_cancel:
  assumes "Type k = KeyEsc" and "Key_String kc = ''c''" and "\<not> cloning root"
    and "list_all editMsg edits"
  shows "\<exists>md cs. run E (RepoModel root) (KeyMsg kc # edits @ [KeyMsg k]) w =
                    Some (Inr ((md, cs), w)) \<and>
           (if username root = [] then cs \<noteq> [] \<and> last cs = Quit else md = RepoModel root)"
proof -
  let ?m = "prepUsernameModel (bubbles E) (username root) root"
  from run_edits_then [OF assms(4), of E ?m "KeyMsg k" w] obtain ti cs where
    r: "run E (UsernameModel ?m) (edits @ [KeyMsg k]) w =
           (case usernameModel_Update E (?m\<lparr>textInput := ti\<rparr>) (KeyMsg k) w of
              None \<Rightarrow> None
            | Some ((md, c), w') \<Rightarrow>
                Some (Inr ((md, cs @ (case c of None \<Rightarrow> [] | Some x \<Rightarrow> [x])), w')))"
    by blast
  show ?thesis
    using assms(1)
    by (simp add: Update_def change_step [OF assms(2,3)] r esc_step prep_fields)
qed

lemma guarded_key_while_cloning:
  assumes "cloning m"
  shows "repoModel_Update W m (KeyMsg k) = forwardToList W m (KeyMsg k)"
  using assms by (simp add: repoModel_Update_def)

lemma liftCmd_no_clone: "\<not> dispatchesClone (liftCmd c)"
  by (cases c) simp_all

lemma confirms_while_cloning:
  assumes "cloning m" and "list_all confirmKey ks"
  shows "\<exists>l cs. run E (RepoModel m) ks w =
                   Some (Inr ((RepoModel (m\<lparr>list := l\<rparr>), cs), w)) \<and>
            \<not> list_ex dispatchesClone cs"
  using assms
proof (induction ks arbitrary: m)
  case Nil
  have "m\<lparr>list := list m\<rparr> = m" by simp
  then show ?case by (intro exI [of _ "list m"] exI [of _ "[]"]) simp
next
  case (Cons a ks)
  from Cons.prems obtain k where a: "a = KeyMsg k"
    by (cases a) auto
  obtain l1 c where lu: "list_Update (bubbles E) (KeyMsg k) (list m) = (l1, c)"
    by (cases "list_Update (bubbles E) (KeyMsg k) (list m)")
  have st: "repoModel_Update (bubbles E) m (KeyMsg k) =
              Inr (RepoModel (m\<lparr>list := l1\<rparr>), map_option liftCmd c)"
    using guarded_key_while_cloning [OF Cons.prems(1)] lu by (simp add: forwardToList_def)
  have "cloning (m\<lparr>list := l1\<rparr>)" using Cons.prems by simp
  from Cons.IH [OF this] Cons.prems obtain l cs where
    ih: "run E (RepoModel (m\<lparr>list := l1\<rparr>)) ks w =
           Some (Inr ((RepoModel (m\<lparr>list := l1, list := l\<rparr>), cs), w))"
    and nc: "\<not> list_ex dispatchesClone cs" by auto
  show ?case
    apply (intro exI [of _ l]
        exI [of _ "(case map_option liftCmd c of None \<Rightarrow> [] | Some x \<Rightarrow> [x]) @ cs"])
    using nc ih
    apply (cases c)
     apply (simp_all add: a Update_def st liftCmd_no_clone)
    done
qed


lemma cloneRepo_err:
  assumes "cloneRepo u (output, e) = Inr c"
  shows "cf_err c = (case e of None \<Rightarrow> None | Some x \<Rightarrow> Some (x @ '': '' @ output))"
  using assms
  by (cases e) (auto simp: cloneRepo_def split: sum.splits)



lemma confirm_without_selection:
  assumes "\<not> cloning m" and "Key_String k = ''enter''" and "SelectedItem (list m) = None"
  shows "repoModel_Update W m (KeyMsg k) = Inl InterfaceConversionNil"
  using assms by (simp add: repoModel_Update_def)


subsection \<open>Blank text and the start of the program\<close>

text \<open>
  A text of ASCII white space only is empty once trimmed. \<^verbatim>\<open>BbltRun\<close> starts in identity
  entry exactly when the read of the Git user name failed and its trimmed output is
  empty; in every other case it browses for the trimmed output.
\<close>

lemma trimPrefixes_Nil: "trimPrefixes ps [] = []"
proof -
  have "find (\<lambda>p. p \<noteq> [] \<and> take (length p) [] = p) ps = None"
    by (auto simp: find_None_iff)
  then show ?thesis by (subst trimPrefixes.simps) simp
qed

lemma blank_found:
  assumes "c \<in> {CHR 0x09, CHR 0x0A, CHR 0x0B, CHR 0x0C, CHR 0x0D, CHR 0x20}"
  shows "find (\<lambda>p. p \<noteq> [] \<and> take (length p) (c # s) = p) spaceRunes = Some [c]"
proof -
  from assms consider "c = CHR 0x09" | "c = CHR 0x0A" | "c = CHR 0x0B" | "c = CHR 0x0C"
    | "c = CHR 0x0D" | "c = CHR 0x20" by blast
  then show ?thesis
    by cases (simp_all add: spaceRunes_def)
qed


lemma TrimLeftSpace_blank:
  assumes "set s \<subseteq> {CHR 0x09, CHR 0x0A, CHR 0x0B, CHR 0x0C, CHR 0x0D, CHR 0x20}"
  shows "TrimLeftSpace s = []"
  using assms
proof (induction s)
  case Nil
  then show ?case by (simp add: TrimLeftSpace_def trimPrefixes_Nil)
next
  case (Cons c s)
  then have c: "c \<in> {CHR 0x09, CHR 0x0A, CHR 0x0B, CHR 0x0C, CHR 0x0D, CHR 0x20}"
    and ih: "trimPrefixes spaceRunes s = []"
    by (simp_all add: TrimLeftSpace_def)
  have "trimPrefixes spaceRunes (c # s) = trimPrefixes spaceRunes s"
    by (subst trimPrefixes.simps) (simp add: blank_found [OF c])
  with ih show ?case by (simp add: TrimLeftSpace_def)
qed

lemma TrimSpace_blank:
  assumes "set s \<subseteq> {CHR 0x09, CHR 0x0A, CHR 0x0B, CHR 0x0C, CHR 0x0D, CHR 0x20}"
  shows "TrimSpace s = []"
  using TrimLeftSpace_blank [OF assms]
  by (simp add: TrimSpace_def TrimRightSpace_def trimPrefixes_Nil)

lemma BbltRun_identity_entry:
  assumes "e \<noteq> None" and "TrimSpace out = []"
  shows "BbltRun E (out, e) w =
           Some (UsernameModel (prepUsernameModel (bubbles E) [] repoModel_zero), w)"
  using assms by (simp add: BbltRun_def)

lemma BbltRun_browse:
  assumes "e = None \<or> TrimSpace out \<noteq> []"
  shows "BbltRun E (out, e) w =
           (case initialModel E (TrimSpace out) w of
              None \<Rightarrow> None
            | Some (m, w') \<Rightarrow> Some (RepoModel m, w'))"
  using assms by (auto simp: BbltRun_def)

section \<open>The claims\<close>

text \<open>
  C1. The directory name reported after a successful clone is to be the last path
  segment of the URL without a trailing \<^verbatim>\<open>.git\<close>. \<^verbatim>\<open>cloneRepo\<close> cuts the last four bytes
  whatever they are: for \<^verbatim>\<open>https://github.com/user/myrepo.git\<close> it reports \<^verbatim>\<open>myrepo\<close>,
  for \<^verbatim>\<open>https://github.com/user/myrepo\<close> it reports \<^verbatim>\<open>my\<close>, and for \<^verbatim>\<open>a/b\<close> the slice
  bounds are out of range and the command panics.
\<close>

theorem cloneRepo_cuts_four_bytes:
  "cloneRepo ''https://github.com/user/myrepo.git'' (out, None) =
     Inr \<lparr>cf_err = None, cf_dir = ''myrepo''\<rparr> \<and>
   cloneRepo ''https://github.com/user/myrepo'' (out, None) =
     Inr \<lparr>cf_err = None, cf_dir = ''my''\<rparr> \<and>
   cloneRepo ''a/b'' (out, None) = Inl SliceBoundsOutOfRange"
  by (simp add: cloneRepo_def slice_def LastIndex_def)

text \<open>
  C2. After a fetch that failed or returned no repository, \<^verbatim>\<open>initialModel\<close> still builds
  a model, with an empty list. A confirm key in that model is to do nothing; in the
  code the type assertion on the \<^verbatim>\<open>nil\<close> selected item panics.
\<close>

theorem confirm_on_empty_list_panics:
  "map_option fst (initialModel (pagedEnv [Inl ''boom'']) u world0) =
     Some (emptyModel u (Some ''failed to list repos: boom'')) \<and>
   map_option fst (initialModel (pagedEnv [Inr []]) u world0) = Some (emptyModel u None) \<and>
   repoModel_Update W (emptyModel u e) (KeyMsg (plainKey KeyEnter)) =
     Inl InterfaceConversionNil"
proof -
  have env: "pagedEnv pages = (pagedEnv pages)\<lparr>NewClient := (\<lambda>t. pagedClient pages)\<rparr>"
    for pages by (simp add: pagedEnv_def)
  have "map_option fst (fetchRepos (pagedEnv [Inl ''boom'']) u world0) =
          Some (Inl ''failed to list repos: boom'')"
    by (subst env) (simp add: fetchRepos_paged)
  then have a: "map_option fst (initialModel (pagedEnv [Inl ''boom'']) u world0) =
                  Some (emptyModel u (Some ''failed to list repos: boom''))"
    by (rule initialModel_error)
  have "map_option fst (fetchRepos (pagedEnv [Inr []]) u world0) = Some (Inr [])"
    by (subst env) (simp add: fetchRepos_paged)
  then obtain w' where "fetchRepos (pagedEnv [Inr []]) u world0 = Some (Inr [], w')"
    by auto
  then have b: "map_option fst (initialModel (pagedEnv [Inr []]) u world0) =
                  Some (emptyModel u None)"
    by (simp add: initialModel_def)
  have "SelectedItem (list (emptyModel u e)) = None"
    by (simp add: SelectedItem_def emptyModel_def list_New_def)
  then have c: "repoModel_Update W (emptyModel u e) (KeyMsg (plainKey KeyEnter)) =
                  Inl InterfaceConversionNil"
    by (intro confirm_without_selection)
       (simp_all add: emptyModel_def plainKey_def Key_String_def)
  from a b c show ?thesis by blast
qed

text \<open>
  C3. The program is to start in identity entry when reading the Git user name fails
  or gives an empty name. \<^verbatim>\<open>BbltRun\<close> does so only when both hold: a read that succeeds
  with an empty name (only a line feed printed), and a read that fails with text on
  its output, both go to \<^verbatim>\<open>initialModel\<close>, which fetches and browses for that name.
\<close>

theorem BbltRun_browses_without_identity:
  "BbltRun (pagedEnv []) ([CHR 0x0A], None) world0 =
     Some (RepoModel (emptyModel [] None), \<lparr>requests = [([], 0)]\<rparr>) \<and>
   BbltRun (pagedEnv []) (''fatal: bad config'', Some ''exit status 128'') world0 =
     Some (RepoModel (emptyModel ''fatal: bad config'' None),
           \<lparr>requests = [(''fatal: bad config'', 0)]\<rparr>)"
  by code_simp

text \<open>
  C4. In \<^verbatim>\<open>usernameModel.Update\<close> the cancel key (Esc) quits when the user name the
  model holds is empty, and otherwise returns the stored repository model, with no
  request sent. That stored model is the one that was active: after the change-identity
  key on a repository model that is not cloning, any messages for the text input, and
  Esc, the active model is that repository model again and the world is unchanged
  (or, when its user name is empty, the last command is \<^verbatim>\<open>tea.Quit\<close>).
\<close>

theorem cancel_key_returns_prior_model:
  assumes "Type k = KeyEsc" and "Key_String kc = ''c''" and "\<not> cloning root"
    and "list_all editMsg edits"
  shows "usernameModel_Update E m (KeyMsg k) w =
           Some ((if um_username m = [] then (UsernameModel m, Some Quit)
                  else (RepoModel (rootModel m), None)), w) \<and>
         (\<exists>md cs. run E (RepoModel root) (KeyMsg kc # edits @ [KeyMsg k]) w =
                     Some (Inr ((md, cs), w)) \<and>
            (if username root = [] then cs \<noteq> [] \<and> last cs = Quit
             else md = RepoModel root))"
  using esc_step [OF assms(1)] change_edit_cancel [OF assms] by simp

theorem cancel_key_returns_prior_model_witness:
  "Type (plainKey KeyEsc) = KeyEsc \<and> Key_String (runeKey ''c'') = ''c'' \<and>
   \<not> cloning aliceModel \<and> list_all editMsg [KeyMsg (runeKey ''b''), TickMsg] \<and>
   usernameModel_Update (pagedEnv []) (prepUsernameModel stillWidgets ''alice'' aliceModel)
     (KeyMsg (plainKey KeyEsc)) world0 = Some ((RepoModel aliceModel, None), world0) \<and>
   (\<exists>cs. run (pagedEnv []) (RepoModel aliceModel)
            (KeyMsg (runeKey ''c'') # [KeyMsg (runeKey ''b''), TickMsg] @
             [KeyMsg (plainKey KeyEsc)]) world0 =
          Some (Inr ((RepoModel aliceModel, cs), world0)))"
proof -
  have h1: "Type (plainKey KeyEsc) = KeyEsc" by (simp add: plainKey_def)
  have h2: "Key_String (runeKey ''c'') = ''c''" by (simp add: runeKey_def Key_String_def)
  have h3: "\<not> cloning aliceModel" by (simp add: aliceModel_def)
  have h4: "list_all editMsg [KeyMsg (runeKey ''b''), TickMsg]" by (simp add: runeKey_def)
  have u: "username aliceModel \<noteq> []" by (simp add: aliceModel_def)
  from cancel_key_returns_prior_model [OF h1 h2 h3 h4,
      of "pagedEnv []" "prepUsernameModel stillWidgets ''alice'' aliceModel" world0]
  show ?thesis using h1 h2 h3 h4 u by (auto simp: prep_fields)
qed

text \<open>
  C5. While a clone is running, confirm keys start no further clone: after any number
  of them the model differs in its list widget only (the keys went there), the phase
  is the same \<open>Cloning\<close> phase, the world is unchanged, and none of the commands
  returned runs \<^verbatim>\<open>cloneRepo\<close>.
\<close>

theorem confirm_while_cloning_ignored:
  assumes "cloning m" and "list_all confirmKey ks"
  shows "\<exists>l cs. run E (RepoModel m) ks w =
                   Some (Inr ((RepoModel (m\<lparr>list := l\<rparr>), cs), w)) \<and>
            \<not> list_ex dispatchesClone cs \<and>
            phase (m\<lparr>list := l\<rparr>) = phase m \<and> phase m = Cloning (cloneMsg m)"
proof -
  from confirms_while_cloning [OF assms, of E w] obtain l cs where
    "run E (RepoModel m) ks w = Some (Inr ((RepoModel (m\<lparr>list := l\<rparr>), cs), w))"
    and "\<not> list_ex dispatchesClone cs" by blast
  moreover have "phase (m\<lparr>list := l\<rparr>) = phase m" by (simp add: phase_def)
  moreover from assms(1) have "phase m = Cloning (cloneMsg m)" by (simp add: phase_def)
  ultimately show ?thesis by blast
qed

theorem confirm_while_cloning_ignored_witness:
  "cloning (aliceModel\<lparr>cloning := True, cloneMsg := ''Cloning dotfiles...''\<rparr>) \<and>
   list_all confirmKey [KeyMsg (plainKey KeyEnter), KeyMsg (plainKey KeyEnter)] \<and>
   (\<exists>l cs. run (pagedEnv [])
              (RepoModel (aliceModel\<lparr>cloning := True, cloneMsg := ''Cloning dotfiles...''\<rparr>))
              [KeyMsg (plainKey KeyEnter), KeyMsg (plainKey KeyEnter)] world0 =
            Some (Inr ((RepoModel (aliceModel\<lparr>cloning := True,
                                     cloneMsg := ''Cloning dotfiles...'', list := l\<rparr>), cs),
                       world0)) \<and>
            \<not> list_ex dispatchesClone cs)"
proof -
  have h1: "cloning (aliceModel\<lparr>cloning := True, cloneMsg := ''Cloning dotfiles...''\<rparr>)"
    by simp
  have h2: "list_all confirmKey [KeyMsg (plainKey KeyEnter), KeyMsg (plainKey KeyEnter)]"
    by (simp add: plainKey_def Key_String_def)
  from confirm_while_cloning_ignored [OF h1 h2, of "pagedEnv []" world0]
  show ?thesis using h1 h2 by blast
qed



text \<open>
  C7. Against a client that serves a sequence of pages, \<^verbatim>\<open>fetchRepos\<close> returns, for every
  user name: when every page succeeds, the repositories of all pages in page order
  (as many as the pages hold together, and \<^verbatim>\<open>initialModel\<close> lists one item for each);
  when a page fails, after any number of pages that succeeded, the error of that page
  wrapped, and no repository.
\<close>

theorem fetchRepos_concatenates_pages:
  "map_option fst (fetchRepos (E\<lparr>NewClient := (\<lambda>t. pagedClient (map Inr rss))\<rparr>) u w) =
     Some (Inr (concat rss)) \<and>
   length (concat rss) = sum_list (map length rss) \<and>
   map_option (\<lambda>r. visibleItems (list (fst r)))
     (initialModel (E\<lparr>NewClient := (\<lambda>t. pagedClient (map Inr rss))\<rparr>) u w) =
     Some (map toItem (concat rss)) \<and>
   map_option fst
     (fetchRepos (E\<lparr>NewClient := (\<lambda>t. pagedClient (map Inr rss @ Inl e # rest))\<rparr>) u w) =
     Some (Inl (''failed to list repos: '' @ e))"
proof -
  have a: "map_option fst (fetchRepos (E\<lparr>NewClient := (\<lambda>t. pagedClient (map Inr rss))\<rparr>) u w) =
             Some (Inr (concat rss))"
    by (simp only: fetchRepos_paged gather_all append_Nil)
  have b: "length (concat rss) = sum_list (map length rss)"
    by (simp add: length_concat)
  have c: "map_option (\<lambda>r. visibleItems (list (fst r)))
             (initialModel (E\<lparr>NewClient := (\<lambda>t. pagedClient (map Inr rss))\<rparr>) u w) =
             Some (map toItem (concat rss))"
    using a by (rule initialModel_items)
  have d: "map_option fst
             (fetchRepos (E\<lparr>NewClient := (\<lambda>t. pagedClient (map Inr rss @ Inl e # rest))\<rparr>) u w) =
             Some (Inl (''failed to list repos: '' @ e))"
    by (simp only: fetchRepos_paged gather_fail)
  from a b c d show ?thesis by blast
qed

theorem fetchRepos_concatenates_pages_witness:
  "fetchRepos (pagedEnv [Inr [repo ''a'' ''u/a.git''], Inr [], Inr [repo ''b'' ''u/b.git'']])
     ''alice'' world0 =
     Some (Inr [repo ''a'' ''u/a.git'', repo ''b'' ''u/b.git''],
           \<lparr>requests = [(''alice'', 0), (''alice'', 2), (''alice'', 3)]\<rparr>) \<and>
   fetchRepos (pagedEnv [Inr [repo ''a'' ''u/a.git''], Inl ''403 rate limit'', Inr []])
     ''alice'' world0 =
     Some (Inl ''failed to list repos: 403 rate limit'',
           \<lparr>requests = [(''alice'', 0), (''alice'', 2)]\<rparr>)"
proof -
  have env: "pagedEnv pages = (pagedEnv [])\<lparr>NewClient := (\<lambda>t. pagedClient pages)\<rparr>" for pages
    by (simp add: pagedEnv_def)
  note t = fetchRepos_concatenates_pages [where E = "pagedEnv []"
      and rss = "[[repo ''a'' ''u/a.git''], [], [repo ''b'' ''u/b.git'']]"
      and u = "''alice''" and w = world0 and e = "''403''" and rest = "[]"]
  have "fetchRepos (pagedEnv [Inr [repo ''a'' ''u/a.git''], Inr [], Inr [repo ''b'' ''u/b.git'']])
     ''alice'' world0 =
     Some (Inr [repo ''a'' ''u/a.git'', repo ''b'' ''u/b.git''],
           \<lparr>requests = [(''alice'', 0), (''alice'', 2), (''alice'', 3)]\<rparr>)"
    by code_simp
  moreover have "fetchRepos (pagedEnv [Inr [repo ''a'' ''u/a.git''], Inl ''403 rate limit'', Inr []])
     ''alice'' world0 =
     Some (Inl ''failed to list repos: 403 rate limit'',
           \<lparr>requests = [(''alice'', 0), (''alice'', 2)]\<rparr>)"
    by code_simp
  ultimately show ?thesis using t by simp
qed

text \<open>
  C8. In \<^verbatim>\<open>usernameModel.Update\<close> the confirm key (Enter) on a text that is empty once
  trimmed changes nothing: the same model, no command, no request sent (whatever the
  GitHub client would answer), and so no error set.
\<close>

theorem empty_confirm_is_noop:
  assumes "Type k = KeyEnter" and "TrimSpace (Value (textInput m)) = []"
  shows "usernameModel_Update E m (KeyMsg k) w = Some ((UsernameModel m, None), w)"
  using assms by (simp add: usernameModel_Update_def)

theorem empty_confirm_is_noop_witness:
  "Type (plainKey KeyEnter) = KeyEnter \<and>
   TrimSpace (Value \<lparr>Value = [CHR 0x20, CHR 0x09, CHR 0x20], CharLimit = 64, focus = True\<rparr>) = [] \<and>
   usernameModel_Update (pagedEnv [Inl ''boom''])
     \<lparr>rootModel = aliceModel, um_username = ''alice'',
      textInput = \<lparr>Value = [CHR 0x20, CHR 0x09, CHR 0x20], CharLimit = 64, focus = True\<rparr>,
      um_err = None\<rparr>
     (KeyMsg (plainKey KeyEnter)) world0 =
     Some ((UsernameModel
              \<lparr>rootModel = aliceModel, um_username = ''alice'',
               textInput = \<lparr>Value = [CHR 0x20, CHR 0x09, CHR 0x20], CharLimit = 64, focus = True\<rparr>,
               um_err = None\<rparr>, None), world0)"
proof -
  have h1: "Type (plainKey KeyEnter) = KeyEnter" by (simp add: plainKey_def)
  have h2: "TrimSpace (Value \<lparr>Value = [CHR 0x20, CHR 0x09, CHR 0x20], CharLimit = 64,
                               focus = True\<rparr>) = []"
    by code_simp
  from empty_confirm_is_noop [OF h1, of
      "\<lparr>rootModel = aliceModel, um_username = ''alice'',
        textInput = \<lparr>Value = [CHR 0x20, CHR 0x09, CHR 0x20], CharLimit = 64, focus = True\<rparr>,
        um_err = None\<rparr>" "pagedEnv [Inl ''boom'']" world0] h1 h2
  show ?thesis by simp
qed

text \<open>
  C9. The terminate key (\<^verbatim>\<open>ctrl+c\<close>) is not to quit the program while a clone is running.
  In \<^verbatim>\<open>repoModel.Update\<close> the key then fails the guard of the first branch and of the
  two after it, and goes to the list widget, whose command is returned as it is: the
  program quits whenever the widget answers the key with \<^verbatim>\<open>tea.Quit\<close>, as the list of
  Bubbles does for its \<^verbatim>\<open>ForceQuit\<close> key.
\<close>

theorem terminate_key_while_cloning_reaches_list:
  assumes "cloning m" and "Key_String k = ''ctrl+c''"
  shows "repoModel_Update W m (KeyMsg k) =
           (case list_Update W (KeyMsg k) (list m) of
              (l, c) \<Rightarrow> Inr (RepoModel (m\<lparr>list := l\<rparr>), map_option liftCmd c))"
  using guarded_key_while_cloning [OF assms(1), of W k]
  by (simp add: forwardToList_def)

theorem terminate_key_while_cloning_reaches_list_witness:
  "cloning (aliceModel\<lparr>cloning := True\<rparr>) \<and> Key_String (plainKey KeyCtrlC) = ''ctrl+c'' \<and>
   repoModel_Update forceQuitWidgets (aliceModel\<lparr>cloning := True\<rparr>) (KeyMsg (plainKey KeyCtrlC)) =
     Inr (RepoModel (aliceModel\<lparr>cloning := True\<rparr>), Some Quit)"
proof -
  have h1: "cloning (aliceModel\<lparr>cloning := True\<rparr>)" by simp
  have h2: "Key_String (plainKey KeyCtrlC) = ''ctrl+c''"
    by (simp add: plainKey_def Key_String_def)
  from terminate_key_while_cloning_reaches_list [OF h1 h2, of forceQuitWidgets] h1 h2
  show ?thesis
    by (simp add: forceQuitWidgets_def stillWidgets_def)
qed

text \<open>
  C10. In \<^verbatim>\<open>usernameModel.Update\<close> the interrupt key (\<^verbatim>\<open>tea.KeyCtrlC\<close>) always returns
  \<^verbatim>\<open>tea.Quit\<close>, whatever the text and the stored user name; so it does right after the
  change-identity key on a repository model that is not cloning.
\<close>

theorem interrupt_key_always_quits:
  assumes "Type k = KeyCtrlC" and "Key_String kc = ''c''" and "\<not> cloning root"
  shows "usernameModel_Update E m (KeyMsg k) w = Some ((UsernameModel m, Some Quit), w) \<and>
         run E (RepoModel root) [KeyMsg kc, KeyMsg k] w =
           Some (Inr ((UsernameModel (prepUsernameModel (bubbles E) (username root) root),
                       [Quit]), w))"
proof -
  have q: "usernameModel_Update E m' (KeyMsg k) w = Some ((UsernameModel m', Some Quit), w)"
    for m' using assms(1) by (simp add: usernameModel_Update_def)
  show ?thesis
    by (simp add: q Update_def change_step [OF assms(2,3)])
qed

theorem interrupt_key_always_quits_witness:
  "Type (plainKey KeyCtrlC) = KeyCtrlC \<and> Key_String (runeKey ''c'') = ''c'' \<and>
   \<not> cloning aliceModel \<and>
   run (pagedEnv []) (RepoModel aliceModel)
     [KeyMsg (runeKey ''c''), KeyMsg (plainKey KeyCtrlC)] world0 =
     Some (Inr ((UsernameModel (prepUsernameModel stillWidgets ''alice'' aliceModel),
                 [Quit]), world0))"
proof -
  have h1: "Type (plainKey KeyCtrlC) = KeyCtrlC" by (simp add: plainKey_def)
  have h2: "Key_String (runeKey ''c'') = ''c''" by (simp add: runeKey_def Key_String_def)
  have h3: "\<not> cloning aliceModel" by (simp add: aliceModel_def)
  have b: "bubbles (pagedEnv []) = stillWidgets" by (simp add: pagedEnv_def)
  have u: "username aliceModel = ''alice''" by (simp add: aliceModel_def)
  from interrupt_key_always_quits [OF h1 h2 h3, of "pagedEnv []" _ world0] h1 h2 h3
  show ?thesis by (simp add: b u)
qed

end
